theory Spec2Isabelle
  imports Complex_Main
begin

section \<open>Rail fare predictor: the feature derivation of \<open>predict_fare\<close> (app.py)\<close>

text \<open>
  The development embeds the function \<open>predict_fare\<close> of \<open>app.py\<close> (lines 25 to 76).
  Numbers are exact: a Python \<open>int\<close> is an \<open>int\<close>, and every other number is a
  \<open>real\<close>, so \<open>/\<close> is exact division and rounding of binary floating point is not
  part of the model. The results below are therefore about the formulas, the layout of
  the row and the decisions of the function; they say nothing about what binary
  floating point adds at the ends of its range, where a quotient underflows to 0.0 or
  a square overflows. Everything that can raise in the source is a value of the type
  \<open>error\<close>: a dictionary lookup of a missing key, a division by zero, reading element 0
  of an empty sequence, and whatever the model object raises.
\<close>

subsection \<open>Errors and effects\<close>

datatype error =
    KeyError string
  | ZeroDivisionError
  | IndexError
  | ModelError string

text \<open>
  The model object is a parameter: \<open>model.predict\<close> takes the rows of a matrix and
  returns one number per row, or raises.
\<close>

type_synonym model = "real list list \<Rightarrow> error + real list"

text \<open>
  A computation yields the list of argument matrices with which \<open>model.predict\<close> was
  called so far, and either the raised error or its value.
\<close>

type_synonym 'a py = "real list list list \<times> (error + 'a)"

definition ret :: "'a \<Rightarrow> 'a py" where
  "ret x = ([], Inr x)"

definition raise :: "error \<Rightarrow> 'a py" where
  "raise e = ([], Inl e)"

definition bind :: "'a py \<Rightarrow> ('a \<Rightarrow> 'b py) \<Rightarrow> 'b py" where
  "bind m k =
     (case m of
        (calls, Inl e) \<Rightarrow> (calls, Inl e)
      | (calls, Inr x) \<Rightarrow> (case k x of (calls', r) \<Rightarrow> (calls @ calls', r)))"

definition predict_calls :: "'a py \<Rightarrow> real list list list" where
  "predict_calls m = fst m"

definition returned :: "'a py \<Rightarrow> error + 'a" where
  "returned m = snd m"

subsection \<open>The Python operations the function uses\<close>

text \<open>\<open>d[k]\<close> on a dictionary raises \<open>KeyError(k)\<close> when the key is missing.\<close>

definition getitem :: "(string \<rightharpoonup> 'v) \<Rightarrow> string \<Rightarrow> 'v py" where
  "getitem d k = (case d k of None \<Rightarrow> raise (KeyError k) | Some v \<Rightarrow> ret v)"

text \<open>\<open>a / b\<close> raises \<open>ZeroDivisionError\<close> when \<open>b\<close> is zero.\<close>

definition truediv :: "real \<Rightarrow> real \<Rightarrow> real py" where
  "truediv a b = (if b = 0 then raise ZeroDivisionError else ret (a / b))"

text \<open>\<open>math.ceil\<close> returns an \<open>int\<close>.\<close>

definition math_ceil :: "real \<Rightarrow> int" where
  "math_ceil x = \<lceil>x\<rceil>"

text \<open>\<open>xs[0]\<close> raises \<open>IndexError\<close> on an empty sequence.\<close>

definition first :: "'a list \<Rightarrow> 'a py" where
  "first xs = (case xs of [] \<Rightarrow> raise IndexError | x # _ \<Rightarrow> ret x)"

text \<open>\<open>model.predict(rows)\<close>: the call is recorded, and its error or value passed on.\<close>

definition predict :: "model \<Rightarrow> real list list \<Rightarrow> real list py" where
  "predict model rows = ([rows], model rows)"

subsection \<open>The lookup tables (lines 26 to 28)\<close>

definition class_hierarchy :: "string list" where
  "class_hierarchy = [''1A'', ''2A'', ''3A'', ''SL'', ''CC'', ''2S'']"

text \<open>
  \<open>{class_name: i for i, class_name in enumerate(class_hierarchy, 1)}\<close>: the pairs of
  \<open>enumerate\<close> are stored one after the other, a later one overwriting an earlier one
  with the same key.
\<close>

definition class_mapping :: "string \<rightharpoonup> int" where
  "class_mapping =
     fold (\<lambda>(i, class_name) d. d(class_name \<mapsto> int i)) (enumerate 1 class_hierarchy) Map.empty"

definition luxury_mapping :: "string \<rightharpoonup> int" where
  "luxury_mapping =
     [''1A'' \<mapsto> 6, ''2A'' \<mapsto> 5, ''3A'' \<mapsto> 4, ''CC'' \<mapsto> 2, ''2S'' \<mapsto> 1, ''SL'' \<mapsto> 3]"

subsection \<open>The speed before the cap (line 34)\<close>

text \<open>
  \<open>distance / (math.ceil(duration / 60)) if duration > 0 else 0\<close>. The division by the
  literal 60 cannot fail; the division by the rounded hours is a \<open>truediv\<close>. Here
  \<open>duration / 60\<close> is the exact quotient, which is above 0 whenever the duration is.
  On Python floats the quotient of a positive duration below about \<open>1.5e-322\<close> is
  \<open>0.0\<close>, its ceiling is 0 and the line raises \<open>ZeroDivisionError\<close>: that path is
  outside this model.
\<close>

definition raw_speed_kmh :: "real \<Rightarrow> real \<Rightarrow> real py" where
  "raw_speed_kmh distance duration =
     (if duration > 0 then truediv distance (of_int (math_ceil (duration / 60))) else ret 0)"

subsection \<open>\<open>predict_fare\<close> (lines 25 to 76)\<close>

definition predict_fare :: "real \<Rightarrow> real \<Rightarrow> string \<Rightarrow> model \<Rightarrow> (real \<times> real) py" where
  "predict_fare distance duration class_code model =
     bind (getitem class_mapping class_code) (\<lambda>class_encoded.
     bind (getitem luxury_mapping class_code) (\<lambda>luxury_score.
     bind (raw_speed_kmh distance duration) (\<lambda>speed_kmh.
     let speed_kmh = (if speed_kmh > 130 then 75 else speed_kmh) in
     bind (if duration > 0 then truediv distance duration else ret 0) (\<lambda>km_per_minute.
     let speed_premium = speed_kmh * of_int luxury_score in
     bind (if duration > 0
           then bind (truediv distance duration) (\<lambda>q. ret (q * of_int class_encoded))
           else ret 0) (\<lambda>efficiency_score.
     let is_express = (if speed_kmh > 60 then 1 else 0) in
     bind (if duration > 0 then truediv distance duration else ret 0) (\<lambda>journey_intensity.
     let is_short_journey = (if distance \<le> 200 then 1 else 0);
         is_medium_journey = (if 200 < distance \<and> distance \<le> 500 then 1 else 0);
         is_long_journey = (if distance > 500 then 1 else 0);
         distance_class = distance * of_int class_encoded;
         distance_luxury = distance * of_int luxury_score;
         speed_class = speed_kmh * of_int class_encoded;
         speed_luxury = speed_kmh * of_int luxury_score in
     bind (if duration > 0 then truediv distance duration else ret 0) (\<lambda>distance_duration_ratio.
     let distance_duration_class = distance * duration * of_int class_encoded;
         express_premium = is_express * of_int luxury_score;
         distance_squared = distance ^ 2;
         duration_squared = duration ^ 2;
         speed_squared = speed_kmh ^ 2;
         distance_bin = 0; duration_bin = 0; speed_bin = 0;
         input_data = [[
           distance, duration, of_int class_encoded,
           of_int luxury_score,
           speed_kmh, km_per_minute, speed_premium, efficiency_score,
           is_express, journey_intensity,
           is_short_journey, is_medium_journey, is_long_journey,
           distance_class, distance_luxury, speed_class, speed_luxury,
           distance_duration_ratio, distance_duration_class, express_premium,
           distance_squared, duration_squared, speed_squared,
           distance_bin, duration_bin, speed_bin
         ]] in
     bind (predict model input_data) (\<lambda>rows.
     bind (first rows) (\<lambda>predicted_fare.
     ret (predicted_fare, speed_kmh))))))))))"

subsection \<open>A sample model\<close>

text \<open>
  A stand-in for the loaded regressor, used where a concrete model is needed: it
  returns one fare per row, the sum of the row's entries.
\<close>

definition sample_model :: model where
  "sample_model rows = Inr (map sum_list rows)"

subsection \<open>The row in closed form\<close>

text \<open>
  For a class code that both tables know, no step of \<open>predict_fare\<close> before the call
  of the model raises, and the row of lines 63 to 73 is the following list of the
  inputs and the two table entries. It is used in the proofs only; that it is the row
  \<open>predict_fare\<close> builds is proved below.
\<close>

definition row_of :: "real \<Rightarrow> real \<Rightarrow> int \<Rightarrow> int \<Rightarrow> real list" where
  "row_of distance duration class_encoded luxury_score =
     (let raw = (if duration > 0 then distance / of_int \<lceil>duration / 60\<rceil> else 0);
          speed_kmh = (if raw > 130 then 75 else raw);
          ratio = (if duration > 0 then distance / duration else 0);
          is_express = (if speed_kmh > 60 then 1 else 0)
      in [distance, duration, of_int class_encoded, of_int luxury_score,
          speed_kmh, ratio, speed_kmh * of_int luxury_score,
          (if duration > 0 then distance / duration * of_int class_encoded else 0),
          is_express, ratio,
          (if distance \<le> 200 then 1 else 0),
          (if 200 < distance \<and> distance \<le> 500 then 1 else 0),
          (if distance > 500 then 1 else 0),
          distance * of_int class_encoded, distance * of_int luxury_score,
          speed_kmh * of_int class_encoded, speed_kmh * of_int luxury_score,
          ratio, distance * duration * of_int class_encoded,
          is_express * of_int luxury_score,
          distance ^ 2, duration ^ 2, speed_kmh ^ 2, 0, 0, 0])"

section \<open>Basic facts\<close>

lemma bind_ret: "bind (ret x) k = k x"
  by (simp add: bind_def ret_def split: prod.splits)

lemma bind_raise: "bind (raise e) k = raise e"
  by (simp add: bind_def raise_def)

lemma bind_predict:
  "bind (predict model rows) k =
     (case model rows of
        Inl e \<Rightarrow> ([rows], Inl e)
      | Inr ys \<Rightarrow> (rows # fst (k ys), snd (k ys)))"
  by (simp add: bind_def predict_def split: sum.splits prod.splits)

lemma class_mapping_table:
  "class_mapping =
     [''1A'' \<mapsto> 1, ''2A'' \<mapsto> 2, ''3A'' \<mapsto> 3, ''SL'' \<mapsto> 4, ''CC'' \<mapsto> 5, ''2S'' \<mapsto> 6]"
  by (simp add: class_mapping_def class_hierarchy_def enumerate_eq_zip upt_rec)

lemma dom_class_mapping: "dom class_mapping = set class_hierarchy"
  by (auto simp add: class_mapping_table class_hierarchy_def)

lemma dom_luxury_mapping: "dom luxury_mapping = set class_hierarchy"
  by (auto simp add: luxury_mapping_def class_hierarchy_def)

lemma rounded_hours_nonzero:
  assumes "0 < duration"
  shows "(of_int (math_ceil (duration / 60)) :: real) \<noteq> 0"
proof -
  from assms have "0 < duration / 60" by simp
  then have "0 < \<lceil>duration / 60\<rceil>" by (simp only: zero_less_ceiling)
  then have "0 < real_of_int \<lceil>duration / 60\<rceil>" by (simp only: of_int_0_less_iff)
  then show ?thesis unfolding math_ceil_def by linarith
qed

lemma raw_speed_kmh_pos:
  "0 < duration \<Longrightarrow> raw_speed_kmh distance duration = ret (distance / of_int \<lceil>duration / 60\<rceil>)"
  using rounded_hours_nonzero [of duration]
  by (simp add: raw_speed_kmh_def truediv_def math_ceil_def)

lemma raw_speed_kmh_nonpos:
  "\<not> 0 < duration \<Longrightarrow> raw_speed_kmh distance duration = ret 0"
  by (simp add: raw_speed_kmh_def)

lemma guarded_div:
  "(if duration > 0 then truediv distance duration else ret 0) =
     ret (if duration > 0 then distance / duration else 0)"
  by (simp add: truediv_def)

lemma guarded_div_times:
  "(if duration > 0 then bind (truediv distance duration) (\<lambda>q. ret (q * c)) else ret 0) =
     ret (if duration > 0 then distance / duration * c else 0)"
  by (simp add: truediv_def bind_ret)

lemma raw_speed_kmh_ret:
  "raw_speed_kmh distance duration =
     ret (if duration > 0 then distance / of_int \<lceil>duration / 60\<rceil> else 0)"
  by (simp add: raw_speed_kmh_pos raw_speed_kmh_nonpos)

lemma bind_predict_first:
  "bind (predict model rows) (\<lambda>ys. bind (first ys) (\<lambda>y. ret (y, s))) =
     ([rows],
      case model rows of
        Inl e \<Rightarrow> Inl e
      | Inr [] \<Rightarrow> Inl IndexError
      | Inr (y # _) \<Rightarrow> Inr (y, s))"
  by (cases "model rows")
     (simp_all add: bind_def predict_def first_def ret_def raise_def split: list.splits)

lemma predict_fare_known_class:
  assumes "class_mapping class_code = Some class_encoded"
      and "luxury_mapping class_code = Some luxury_score"
  shows "predict_fare distance duration class_code model =
     (let raw = (if duration > 0 then distance / of_int \<lceil>duration / 60\<rceil> else 0);
          speed_kmh = (if raw > 130 then 75 else raw);
          ratio = (if duration > 0 then distance / duration else 0);
          is_express = (if speed_kmh > 60 then 1 else 0);
          row = [distance, duration, of_int class_encoded, of_int luxury_score,
                 speed_kmh, ratio, speed_kmh * of_int luxury_score,
                 (if duration > 0 then distance / duration * of_int class_encoded else 0),
                 is_express, ratio,
                 (if distance \<le> 200 then 1 else 0),
                 (if 200 < distance \<and> distance \<le> 500 then 1 else 0),
                 (if distance > 500 then 1 else 0),
                 distance * of_int class_encoded, distance * of_int luxury_score,
                 speed_kmh * of_int class_encoded, speed_kmh * of_int luxury_score,
                 ratio, distance * duration * of_int class_encoded,
                 is_express * of_int luxury_score,
                 distance ^ 2, duration ^ 2, speed_kmh ^ 2, 0, 0, 0]
      in ([[row]],
          case model [row] of
            Inl e \<Rightarrow> Inl e
          | Inr [] \<Rightarrow> Inl IndexError
          | Inr (y # _) \<Rightarrow> Inr (y, speed_kmh)))"
  unfolding predict_fare_def getitem_def assms option.case bind_ret raw_speed_kmh_ret
    guarded_div guarded_div_times Let_def bind_predict_first
  by (rule refl)


lemma known_class:
  assumes "class_code \<in> set class_hierarchy"
  obtains class_encoded luxury_score where
    "class_mapping class_code = Some class_encoded"
    "luxury_mapping class_code = Some luxury_score"
proof -
  from assms have "class_code \<in> dom class_mapping" "class_code \<in> dom luxury_mapping"
    by (simp_all only: dom_class_mapping dom_luxury_mapping)
  then show thesis using that by (auto simp only: dom_def mem_Collect_eq not_None_eq)
qed

lemma class_mapping_range:
  "class_mapping class_code = Some class_encoded \<Longrightarrow> 1 \<le> class_encoded \<and> class_encoded \<le> 6"
  by (auto simp add: class_mapping_table split: if_splits)

lemma luxury_mapping_range:
  "luxury_mapping class_code = Some luxury_score \<Longrightarrow> 1 \<le> luxury_score \<and> luxury_score \<le> 6"
  by (auto simp add: luxury_mapping_def split: if_splits)

lemma ret_eq_iff: "ret x = ret y \<longleftrightarrow> x = y"
  by (simp add: ret_def)

lemma predict_fare_row_of:
  assumes "class_mapping class_code = Some class_encoded"
      and "luxury_mapping class_code = Some luxury_score"
  shows "predict_fare distance duration class_code model =
     ([[row_of distance duration class_encoded luxury_score]],
      case model [row_of distance duration class_encoded luxury_score] of
        Inl e \<Rightarrow> Inl e
      | Inr [] \<Rightarrow> Inl IndexError
      | Inr (y # _) \<Rightarrow> Inr (y, row_of distance duration class_encoded luxury_score ! 4))"
  by (simp only: predict_fare_known_class [OF assms] row_of_def Let_def nth_Cons_numeral
        nth_Cons_0 numeral_nat One_nat_def diff_Suc_1 nth_Cons_Suc)

lemma predict_calls_known_class:
  assumes "class_mapping class_code = Some class_encoded"
      and "luxury_mapping class_code = Some luxury_score"
  shows "predict_calls (predict_fare distance duration class_code model) =
           [[row_of distance duration class_encoded luxury_score]]"
  by (simp only: predict_fare_row_of [OF assms] predict_calls_def fst_conv)

lemma returned_known_class:
  assumes "class_mapping class_code = Some class_encoded"
      and "luxury_mapping class_code = Some luxury_score"
  shows "returned (predict_fare distance duration class_code model) =
           (case model [row_of distance duration class_encoded luxury_score] of
              Inl e \<Rightarrow> Inl e
            | Inr [] \<Rightarrow> Inl IndexError
            | Inr (y # _) \<Rightarrow> Inr (y, row_of distance duration class_encoded luxury_score ! 4))"
  by (simp only: predict_fare_row_of [OF assms] returned_def snd_conv)

lemma first_result_cases:
  "(case r of Inl e \<Rightarrow> Inl e | Inr [] \<Rightarrow> Inl IndexError | Inr (y # _) \<Rightarrow> Inr (y, s)) = Inr (fare, speed)
     \<Longrightarrow> speed = s \<and> (\<exists>rest. r = Inr (fare # rest))"
  by (auto split: sum.splits list.splits)

lemma row_of_length: "length (row_of distance duration class_encoded luxury_score) = 26"
  by (simp add: row_of_def Let_def)

lemma row_of_inputs:
  "row_of distance duration class_encoded luxury_score ! 0 = distance"
  "row_of distance duration class_encoded luxury_score ! 1 = duration"
  "row_of distance duration class_encoded luxury_score ! 2 = of_int class_encoded"
  "row_of distance duration class_encoded luxury_score ! 3 = of_int luxury_score"
  by (simp_all add: row_of_def Let_def)

lemma row_of_speed:
  "row_of distance duration class_encoded luxury_score ! 4 =
     (if duration > 0
      then (if distance / of_int \<lceil>duration / 60\<rceil> > 130 then 75
            else distance / of_int \<lceil>duration / 60\<rceil>)
      else 0)"
  by (simp add: row_of_def Let_def)

lemma row_of_ratios:
  "row_of distance duration class_encoded luxury_score ! 5 =
     (if duration > 0 then distance / duration else 0)"
  "row_of distance duration class_encoded luxury_score ! 7 =
     (if duration > 0 then distance / duration * of_int class_encoded else 0)"
  "row_of distance duration class_encoded luxury_score ! 9 =
     (if duration > 0 then distance / duration else 0)"
  "row_of distance duration class_encoded luxury_score ! 17 =
     (if duration > 0 then distance / duration else 0)"
  by (simp_all add: row_of_def Let_def)

lemma row_of_speed_products:
  "row_of distance duration class_encoded luxury_score ! 6 =
     row_of distance duration class_encoded luxury_score ! 4 * of_int luxury_score"
  "row_of distance duration class_encoded luxury_score ! 8 =
     (if row_of distance duration class_encoded luxury_score ! 4 > 60 then 1 else 0)"
  "row_of distance duration class_encoded luxury_score ! 15 =
     row_of distance duration class_encoded luxury_score ! 4 * of_int class_encoded"
  "row_of distance duration class_encoded luxury_score ! 16 =
     row_of distance duration class_encoded luxury_score ! 4 * of_int luxury_score"
  "row_of distance duration class_encoded luxury_score ! 19 =
     row_of distance duration class_encoded luxury_score ! 8 * of_int luxury_score"
  "row_of distance duration class_encoded luxury_score ! 22 =
     (row_of distance duration class_encoded luxury_score ! 4) ^ 2"
  by (simp_all add: row_of_def Let_def)

lemma row_of_distance_features:
  "row_of distance duration class_encoded luxury_score ! 10 = (if distance \<le> 200 then 1 else 0)"
  "row_of distance duration class_encoded luxury_score ! 11 =
     (if 200 < distance \<and> distance \<le> 500 then 1 else 0)"
  "row_of distance duration class_encoded luxury_score ! 12 = (if distance > 500 then 1 else 0)"
  "row_of distance duration class_encoded luxury_score ! 13 = distance * of_int class_encoded"
  "row_of distance duration class_encoded luxury_score ! 14 = distance * of_int luxury_score"
  "row_of distance duration class_encoded luxury_score ! 18 =
     distance * duration * of_int class_encoded"
  "row_of distance duration class_encoded luxury_score ! 20 = distance ^ 2"
  "row_of distance duration class_encoded luxury_score ! 21 = duration ^ 2"
  by (simp_all add: row_of_def Let_def)

lemma row_of_bins:
  "row_of distance duration class_encoded luxury_score ! 23 = 0"
  "row_of distance duration class_encoded luxury_score ! 24 = 0"
  "row_of distance duration class_encoded luxury_score ! 25 = 0"
  by (simp_all add: row_of_def Let_def)

section \<open>Properties of \<open>predict_fare\<close>\<close>

text \<open>
  The row passed to the model is the list of lines 63 to 73. Its positions, counted
  from 0, are: 0 distance, 1 duration, 2 class_encoded, 3 luxury_score, 4 speed_kmh,
  5 km_per_minute, 6 speed_premium, 7 efficiency_score, 8 is_express,
  9 journey_intensity, 10 is_short_journey, 11 is_medium_journey, 12 is_long_journey,
  13 distance_class, 14 distance_luxury, 15 speed_class, 16 speed_luxury,
  17 distance_duration_ratio, 18 distance_duration_class, 19 express_premium,
  20 distance_squared, 21 duration_squared, 22 speed_squared, 23 distance_bin,
  24 duration_bin, 25 speed_bin.
\<close>

text \<open>
  C1: for every input whose class code is one of the six of \<open>class_hierarchy\<close> (in
  particular for every distance above 0 and every duration from 0 on),
  \<open>model.predict\<close> is called exactly once, with a matrix of one row; the row has
  exactly 26 entries, in the order distance, duration, class_encoded, luxury_score,
  speed_kmh, km_per_minute, speed_premium, efficiency_score, is_express,
  journey_intensity, is_short_journey, is_medium_journey, is_long_journey,
  distance_class, distance_luxury, speed_class, speed_luxury, distance_duration_ratio,
  distance_duration_class, express_premium, distance_squared, duration_squared,
  speed_squared, distance_bin, duration_bin, speed_bin, and the last three are 0.
\<close>

theorem predict_fare_feature_vector:
  assumes "class_code \<in> set class_hierarchy"
  shows "\<exists>class_encoded luxury_score speed_kmh km_per_minute is_express row.
     class_mapping class_code = Some class_encoded \<and>
     luxury_mapping class_code = Some luxury_score \<and>
     speed_kmh =
       (if duration > 0
        then (if distance / of_int (math_ceil (duration / 60)) > 130 then 75
              else distance / of_int (math_ceil (duration / 60)))
        else 0) \<and>
     km_per_minute = (if duration > 0 then distance / duration else 0) \<and>
     is_express = (if speed_kmh > 60 then 1 else 0) \<and>
     row =
       [distance, duration, of_int class_encoded, of_int luxury_score,
        speed_kmh, km_per_minute, speed_kmh * of_int luxury_score,
        km_per_minute * of_int class_encoded,
        is_express, km_per_minute,
        (if distance \<le> 200 then 1 else 0),
        (if 200 < distance \<and> distance \<le> 500 then 1 else 0),
        (if distance > 500 then 1 else 0),
        distance * of_int class_encoded, distance * of_int luxury_score,
        speed_kmh * of_int class_encoded, speed_kmh * of_int luxury_score,
        km_per_minute, distance * duration * of_int class_encoded,
        is_express * of_int luxury_score,
        distance ^ 2, duration ^ 2, speed_kmh ^ 2, 0, 0, 0] \<and>
     length row = 26 \<and> row ! 23 = 0 \<and> row ! 24 = 0 \<and> row ! 25 = 0 \<and>
     predict_calls (predict_fare distance duration class_code model) = [[row]]"
proof -
  from assms obtain class_encoded luxury_score where
    tables: "class_mapping class_code = Some class_encoded"
            "luxury_mapping class_code = Some luxury_score"
    by (rule known_class)
  show ?thesis
    unfolding predict_calls_known_class [OF tables] row_of_def Let_def math_ceil_def
    using tables by (cases "0 < duration") simp_all
qed

theorem predict_fare_feature_vector_witness:
  "''2A'' \<in> set class_hierarchy \<and>
   (\<exists>row. length row = 26 \<and>
      predict_calls (predict_fare 200 180 ''2A'' sample_model) = [[row]] \<and>
      row = [200, 180, 2, 5, 200 / 3, 10 / 9, 1000 / 3, 20 / 9, 1, 10 / 9, 1, 0, 0,
             400, 1000, 400 / 3, 1000 / 3, 10 / 9, 72000, 5, 40000, 32400, 40000 / 9,
             0, 0, 0])"
proof -
  have known: "''2A'' \<in> set class_hierarchy"
    by (simp add: class_hierarchy_def)
  have tables: "class_mapping ''2A'' = Some 2" "luxury_mapping ''2A'' = Some 5"
    by (simp_all add: class_mapping_table luxury_mapping_def)
  have calls: "predict_calls (predict_fare 200 180 ''2A'' sample_model) =
      [[[200, 180, 2, 5, 200 / 3, 10 / 9, 1000 / 3, 20 / 9, 1, 10 / 9, 1, 0, 0,
         400, 1000, 400 / 3, 1000 / 3, 10 / 9, 72000, 5, 40000, 32400, 40000 / 9,
         0, 0, 0]]]"
    unfolding predict_calls_known_class [OF tables] row_of_def Let_def
    by (simp add: power2_eq_square)
  from predict_fare_feature_vector [OF known, of 180 200 sample_model]
  obtain row where "length row = 26"
    and "predict_calls (predict_fare 200 180 ''2A'' sample_model) = [[row]]"
    by blast
  with calls known show ?thesis by simp
qed

text \<open>
  C2: when the duration is above 0 and the speed computed by line 34 is above 130,
  the speed in the row (position 4) is exactly 75, and so is the speed that
  \<open>predict_fare\<close> returns, whatever the speed before the cap was.
\<close>

theorem speed_cap:
  assumes "0 < duration"
      and "raw_speed_kmh distance duration = ret raw"
      and "130 < raw"
      and "class_code \<in> set class_hierarchy"
  shows "\<exists>row.
     predict_calls (predict_fare distance duration class_code model) = [[row]] \<and>
     row ! 4 = 75 \<and>
     (\<forall>fare speed_kmh.
        returned (predict_fare distance duration class_code model) = Inr (fare, speed_kmh) \<longrightarrow>
        speed_kmh = 75) \<and>
     (\<forall>fare rest.
        model [row] = Inr (fare # rest) \<longrightarrow>
        returned (predict_fare distance duration class_code model) = Inr (fare, 75))"
proof -
  from assms(4) obtain class_encoded luxury_score where
    tables: "class_mapping class_code = Some class_encoded"
            "luxury_mapping class_code = Some luxury_score"
    by (rule known_class)
  let ?row = "row_of distance duration class_encoded luxury_score"
  from assms(2) have "(if duration > 0 then distance / of_int \<lceil>duration / 60\<rceil> else 0) = raw"
    by (simp only: raw_speed_kmh_ret ret_eq_iff)
  with assms(1,3) have speed: "?row ! 4 = 75"
    by (simp add: row_of_speed)
  have calls: "predict_calls (predict_fare distance duration class_code model) = [[?row]]"
    by (rule predict_calls_known_class [OF tables])
  note returned = returned_known_class [OF tables, of distance duration model]
  have "speed_kmh = 75"
    if "returned (predict_fare distance duration class_code model) = Inr (fare, speed_kmh)"
    for fare speed_kmh
    using first_result_cases [OF that [unfolded returned]] by (simp only: speed)
  moreover have "returned (predict_fare distance duration class_code model) = Inr (fare, 75)"
    if "model [?row] = Inr (fare # rest)" for fare rest
    using that by (simp add: returned speed)
  ultimately show ?thesis
    using calls speed by blast
qed

theorem speed_cap_witness:
  "(0::real) < 60 \<and> raw_speed_kmh 1000 60 = ret 1000 \<and> (130::real) < 1000 \<and>
   ''1A'' \<in> set class_hierarchy \<and>
   (\<exists>row. predict_calls (predict_fare 1000 60 ''1A'' sample_model) = [[row]] \<and> row ! 4 = 75) \<and>
   (\<exists>fare. returned (predict_fare 1000 60 ''1A'' sample_model) = Inr (fare, 75))"
proof -
  have raw: "raw_speed_kmh 1000 60 = ret 1000"
    by (simp add: raw_speed_kmh_ret)
  have known: "''1A'' \<in> set class_hierarchy"
    by (simp add: class_hierarchy_def)
  from speed_cap [OF _ raw _ known, of sample_model]
  obtain row where row: "predict_calls (predict_fare 1000 60 ''1A'' sample_model) = [[row]]"
      "row ! 4 = 75"
      "\<forall>fare rest. sample_model [row] = Inr (fare # rest) \<longrightarrow>
         returned (predict_fare 1000 60 ''1A'' sample_model) = Inr (fare, 75)"
    by auto
  from row(3) have "returned (predict_fare 1000 60 ''1A'' sample_model) = Inr (sum_list row, 75)"
    by (simp add: sample_model_def)
  with row(1,2) raw known show ?thesis by auto
qed

text \<open>
  C3: for each of the six classes, class_encoded (position 2) and luxury_score
  (position 3) of the row are the entries of the tables: 1A gives 1 and 6, 2A gives
  2 and 5, 3A gives 3 and 4, SL gives 4 and 3, CC gives 5 and 2, 2S gives 6 and 1.
\<close>

theorem class_tables_in_vector:
  "(\<exists>row. predict_calls (predict_fare distance duration ''1A'' model) = [[row]] \<and>
      row ! 2 = 1 \<and> row ! 3 = 6) \<and>
   (\<exists>row. predict_calls (predict_fare distance duration ''2A'' model) = [[row]] \<and>
      row ! 2 = 2 \<and> row ! 3 = 5) \<and>
   (\<exists>row. predict_calls (predict_fare distance duration ''3A'' model) = [[row]] \<and>
      row ! 2 = 3 \<and> row ! 3 = 4) \<and>
   (\<exists>row. predict_calls (predict_fare distance duration ''SL'' model) = [[row]] \<and>
      row ! 2 = 4 \<and> row ! 3 = 3) \<and>
   (\<exists>row. predict_calls (predict_fare distance duration ''CC'' model) = [[row]] \<and>
      row ! 2 = 5 \<and> row ! 3 = 2) \<and>
   (\<exists>row. predict_calls (predict_fare distance duration ''2S'' model) = [[row]] \<and>
      row ! 2 = 6 \<and> row ! 3 = 1)"
proof -
  have entries: "\<exists>row. predict_calls (predict_fare distance duration class_code model) = [[row]] \<and>
      row ! 2 = of_int class_encoded \<and> row ! 3 = of_int luxury_score"
    if "class_mapping class_code = Some class_encoded"
      and "luxury_mapping class_code = Some luxury_score"
    for class_code class_encoded luxury_score
    by (simp add: predict_calls_known_class [OF that] row_of_inputs)
  have "class_mapping ''1A'' = Some 1" "luxury_mapping ''1A'' = Some 6"
       "class_mapping ''2A'' = Some 2" "luxury_mapping ''2A'' = Some 5"
       "class_mapping ''3A'' = Some 3" "luxury_mapping ''3A'' = Some 4"
       "class_mapping ''SL'' = Some 4" "luxury_mapping ''SL'' = Some 3"
       "class_mapping ''CC'' = Some 5" "luxury_mapping ''CC'' = Some 2"
       "class_mapping ''2S'' = Some 6" "luxury_mapping ''2S'' = Some 1"
    by (simp_all add: class_mapping_table luxury_mapping_def)
  then show ?thesis
    using entries [of "''1A''" 1 6] entries [of "''2A''" 2 5] entries [of "''3A''" 3 4]
      entries [of "''SL''" 4 3] entries [of "''CC''" 5 2] entries [of "''2S''" 6 1]
    by simp
qed



text \<open>
  C5 says that with a duration of 0 every derived feature of the row is 0. It is not
  so: distance 100, duration 0 and class 1A give is_short_journey = 1,
  distance_class = 100, distance_luxury = 600 and distance_squared = 10000
  (positions 10, 13, 14 and 20).
\<close>

theorem zero_duration_defaults_counterexample:
  "predict_calls (predict_fare 100 0 ''1A'' sample_model) =
     [[[100, 0, 1, 6, 0, 0, 0, 0, 0, 0, 1, 0, 0, 100, 600, 0, 0, 0, 0, 0, 10000, 0, 0,
        0, 0, 0]]] \<and>
   predict_calls (predict_fare 100 0 ''1A'' sample_model) ! 0 ! 0 ! 10 \<noteq> 0 \<and>
   predict_calls (predict_fare 100 0 ''1A'' sample_model) ! 0 ! 0 ! 13 \<noteq> 0 \<and>
   predict_calls (predict_fare 100 0 ''1A'' sample_model) ! 0 ! 0 ! 14 \<noteq> 0 \<and>
   predict_calls (predict_fare 100 0 ''1A'' sample_model) ! 0 ! 0 ! 20 \<noteq> 0"
proof -
  have tables: "class_mapping ''1A'' = Some 1" "luxury_mapping ''1A'' = Some 6"
    by (simp_all add: class_mapping_table luxury_mapping_def)
  have "predict_calls (predict_fare 100 0 ''1A'' sample_model) =
     [[[100, 0, 1, 6, 0, 0, 0, 0, 0, 0, 1, 0, 0, 100, 600, 0, 0, 0, 0, 0, 10000, 0, 0,
        0, 0, 0]]]"
    unfolding predict_calls_known_class [OF tables] row_of_def Let_def
    by (simp add: power2_eq_square)
  then show ?thesis by simp
qed

text \<open>
  C5, amended: with a duration of 0, for every recognized class, the features
  km_per_minute, speed_premium, efficiency_score, is_express, journey_intensity,
  speed_class, speed_luxury, distance_duration_ratio, distance_duration_class,
  express_premium, duration_squared and speed_squared are 0 in the row. The features
  that depend on the distance and the class only do not default: is_short_journey,
  is_medium_journey, is_long_journey, distance_class, distance_luxury and
  distance_squared keep the values of their formulas, so that for a distance above 0
  exactly one of the three indicators is 1 and the other three features are above 0.
\<close>

theorem zero_duration_defaults:
  assumes "class_code \<in> set class_hierarchy"
  shows "\<exists>row class_encoded luxury_score.
     class_mapping class_code = Some class_encoded \<and>
     luxury_mapping class_code = Some luxury_score \<and>
     predict_calls (predict_fare distance 0 class_code model) = [[row]] \<and>
     row ! 5 = 0 \<and> row ! 6 = 0 \<and> row ! 7 = 0 \<and> row ! 8 = 0 \<and> row ! 9 = 0 \<and>
     row ! 15 = 0 \<and> row ! 16 = 0 \<and> row ! 17 = 0 \<and> row ! 18 = 0 \<and> row ! 19 = 0 \<and>
     row ! 21 = 0 \<and> row ! 22 = 0 \<and>
     row ! 10 = (if distance \<le> 200 then 1 else 0) \<and>
     row ! 11 = (if 200 < distance \<and> distance \<le> 500 then 1 else 0) \<and>
     row ! 12 = (if distance > 500 then 1 else 0) \<and>
     row ! 13 = distance * of_int class_encoded \<and>
     row ! 14 = distance * of_int luxury_score \<and>
     row ! 20 = distance ^ 2 \<and>
     (0 < distance \<longrightarrow>
        row ! 10 + row ! 11 + row ! 12 = 1 \<and> 0 < row ! 13 \<and> 0 < row ! 14 \<and> 0 < row ! 20)"
proof -
  from assms obtain class_encoded luxury_score where
    tables: "class_mapping class_code = Some class_encoded"
            "luxury_mapping class_code = Some luxury_score"
    by (rule known_class)
  let ?row = "row_of distance 0 class_encoded luxury_score"
  have calls: "predict_calls (predict_fare distance 0 class_code model) = [[?row]]"
    by (rule predict_calls_known_class [OF tables])
  have speed: "?row ! 4 = 0"
    by (simp add: row_of_speed)
  have zeros: "?row ! 5 = 0" "?row ! 6 = 0" "?row ! 7 = 0" "?row ! 8 = 0" "?row ! 9 = 0"
      "?row ! 15 = 0" "?row ! 16 = 0" "?row ! 17 = 0" "?row ! 18 = 0" "?row ! 19 = 0"
      "?row ! 21 = 0" "?row ! 22 = 0"
    by (simp_all add: row_of_ratios row_of_speed_products row_of_distance_features speed)
  have kept: "?row ! 10 = (if distance \<le> 200 then 1 else 0)"
      "?row ! 11 = (if 200 < distance \<and> distance \<le> 500 then 1 else 0)"
      "?row ! 12 = (if distance > 500 then 1 else 0)"
      "?row ! 13 = distance * of_int class_encoded"
      "?row ! 14 = distance * of_int luxury_score"
      "?row ! 20 = distance ^ 2"
    by (simp_all add: row_of_distance_features)
  from class_mapping_range [OF tables(1)] luxury_mapping_range [OF tables(2)]
  have pos: "0 < (of_int class_encoded :: real)" "0 < (of_int luxury_score :: real)"
    by simp_all
  have "?row ! 10 + ?row ! 11 + ?row ! 12 = 1 \<and> 0 < ?row ! 13 \<and> 0 < ?row ! 14 \<and> 0 < ?row ! 20"
    if "0 < distance"
    using that pos by (simp add: row_of_distance_features)
  with tables calls zeros kept show ?thesis
    by blast
qed

theorem zero_duration_defaults_witness:
  "''1A'' \<in> set class_hierarchy \<and>
   (\<exists>row. predict_calls (predict_fare 100 0 ''1A'' sample_model) = [[row]] \<and>
      row ! 5 = 0 \<and> row ! 6 = 0 \<and> row ! 7 = 0 \<and> row ! 8 = 0 \<and> row ! 9 = 0 \<and>
      row ! 15 = 0 \<and> row ! 16 = 0 \<and> row ! 17 = 0 \<and> row ! 18 = 0 \<and> row ! 19 = 0 \<and>
      row ! 21 = 0 \<and> row ! 22 = 0 \<and>
      row ! 10 = 1 \<and> row ! 11 = 0 \<and> row ! 12 = 0 \<and>
      row ! 13 = 100 \<and> row ! 14 = 600 \<and> row ! 20 = 10000)"
proof -
  have known: "''1A'' \<in> set class_hierarchy"
    by (simp add: class_hierarchy_def)
  from zero_duration_defaults [OF known, of 100 sample_model] known
  show ?thesis
    by (auto simp add: class_mapping_table luxury_mapping_def)
qed

text \<open>
  C6: with a duration of 0, for every distance and recognized class, km_per_minute,
  efficiency_score, journey_intensity, distance_duration_ratio and speed_kmh are 0 in
  the row (positions 5, 7, 9, 17 and 4), and is_express (position 8) is 0.
\<close>

theorem zero_duration_ratios:
  assumes "class_code \<in> set class_hierarchy"
  shows "\<exists>row.
     predict_calls (predict_fare distance 0 class_code model) = [[row]] \<and>
     row ! 5 = 0 \<and> row ! 7 = 0 \<and> row ! 9 = 0 \<and> row ! 17 = 0 \<and> row ! 4 = 0 \<and> row ! 8 = 0"
proof -
  from assms obtain class_encoded luxury_score where
    tables: "class_mapping class_code = Some class_encoded"
            "luxury_mapping class_code = Some luxury_score"
    by (rule known_class)
  let ?row = "row_of distance 0 class_encoded luxury_score"
  have calls: "predict_calls (predict_fare distance 0 class_code model) = [[?row]]"
    by (rule predict_calls_known_class [OF tables])
  have speed: "?row ! 4 = 0"
    by (simp add: row_of_speed)
  have "?row ! 5 = 0" "?row ! 7 = 0" "?row ! 9 = 0" "?row ! 17 = 0" "?row ! 8 = 0"
    by (simp_all add: row_of_ratios row_of_speed_products speed)
  with calls speed show ?thesis
    by blast
qed

theorem zero_duration_ratios_witness:
  "''SL'' \<in> set class_hierarchy \<and>
   (\<exists>row. predict_calls (predict_fare 350 0 ''SL'' sample_model) = [[row]] \<and>
      row ! 5 = 0 \<and> row ! 7 = 0 \<and> row ! 9 = 0 \<and> row ! 17 = 0 \<and> row ! 4 = 0 \<and> row ! 8 = 0)"
proof -
  have known: "''SL'' \<in> set class_hierarchy"
    by (simp add: class_hierarchy_def)
  from zero_duration_ratios [OF known, of 350 sample_model] known
  show ?thesis by simp
qed

text \<open>
  C7: for every distance (in particular every distance above 0), exactly one of
  is_short_journey, is_medium_journey and is_long_journey (positions 10, 11, 12) is 1
  and the other two are 0; short is 1 exactly up to 200, medium exactly above 200 and
  up to 500, long exactly above 500, so that 200 is short and 500 is medium.
\<close>

theorem journey_indicators:
  assumes "class_code \<in> set class_hierarchy"
  shows "\<exists>row.
     predict_calls (predict_fare distance duration class_code model) = [[row]] \<and>
     [row ! 10, row ! 11, row ! 12] \<in> {[1, 0, 0], [0, 1, 0], [0, 0, 1]} \<and>
     (row ! 10 = 1 \<longleftrightarrow> distance \<le> 200) \<and>
     (row ! 11 = 1 \<longleftrightarrow> 200 < distance \<and> distance \<le> 500) \<and>
     (row ! 12 = 1 \<longleftrightarrow> 500 < distance)"
proof -
  from assms obtain class_encoded luxury_score where
    tables: "class_mapping class_code = Some class_encoded"
            "luxury_mapping class_code = Some luxury_score"
    by (rule known_class)
  let ?row = "row_of distance duration class_encoded luxury_score"
  have calls: "predict_calls (predict_fare distance duration class_code model) = [[?row]]"
    by (rule predict_calls_known_class [OF tables])
  have "[?row ! 10, ?row ! 11, ?row ! 12] \<in> {[1, 0, 0], [0, 1, 0], [0, 0, 1]}"
    "?row ! 10 = 1 \<longleftrightarrow> distance \<le> 200"
    "?row ! 11 = 1 \<longleftrightarrow> 200 < distance \<and> distance \<le> 500"
    "?row ! 12 = 1 \<longleftrightarrow> 500 < distance"
    by (simp_all add: row_of_distance_features)
  with calls show ?thesis
    by blast
qed

theorem journey_indicators_witness:
  "''CC'' \<in> set class_hierarchy \<and>
   (\<exists>row. predict_calls (predict_fare 200 180 ''CC'' sample_model) = [[row]] \<and>
      row ! 10 = 1 \<and> row ! 11 = 0 \<and> row ! 12 = 0) \<and>
   (\<exists>row. predict_calls (predict_fare 500 480 ''CC'' sample_model) = [[row]] \<and>
      row ! 10 = 0 \<and> row ! 11 = 1 \<and> row ! 12 = 0)"
proof -
  have known: "''CC'' \<in> set class_hierarchy"
    by (simp add: class_hierarchy_def)
  from journey_indicators [OF known, of 200 180 sample_model]
  have short: "\<exists>row. predict_calls (predict_fare 200 180 ''CC'' sample_model) = [[row]] \<and>
      row ! 10 = 1 \<and> row ! 11 = 0 \<and> row ! 12 = 0"
    by auto
  from journey_indicators [OF known, of 500 480 sample_model]
  have medium: "\<exists>row. predict_calls (predict_fare 500 480 ''CC'' sample_model) = [[row]] \<and>
      row ! 10 = 0 \<and> row ! 11 = 1 \<and> row ! 12 = 0"
    by auto
  from known short medium show ?thesis by blast
qed

text \<open>
  C8: for a class code that is not one of the six of \<open>class_hierarchy\<close>, the lookup
  of line 30 raises, so \<open>predict_fare\<close> fails with the lookup error (Python's
  \<open>KeyError\<close>, which the specification calls UnknownClassError) before a row is
  built, and \<open>model.predict\<close> is not called.
\<close>

theorem predict_fare_unknown_class:
  assumes "class_code \<notin> set class_hierarchy"
  shows "getitem class_mapping class_code = raise (KeyError class_code) \<and>
         predict_calls (predict_fare distance duration class_code model) = [] \<and>
         returned (predict_fare distance duration class_code model) = Inl (KeyError class_code)"
proof -
  from assms have "class_code \<notin> dom class_mapping"
    by (simp only: dom_class_mapping not_False_eq_True)
  then have "class_mapping class_code = None"
    by (simp only: domIff not_not)
  then have lookup: "getitem class_mapping class_code = raise (KeyError class_code)"
    by (simp add: getitem_def)
  then have "predict_fare distance duration class_code model = raise (KeyError class_code)"
    by (simp only: predict_fare_def bind_raise)
  with lookup show ?thesis
    by (simp add: predict_calls_def returned_def raise_def)
qed

theorem predict_fare_unknown_class_witness:
  "''4A'' \<notin> set class_hierarchy \<and>
   getitem class_mapping ''4A'' = raise (KeyError ''4A'') \<and>
   predict_calls (predict_fare 200 180 ''4A'' sample_model) = [] \<and>
   returned (predict_fare 200 180 ''4A'' sample_model) = Inl (KeyError ''4A'')"
proof -
  have unknown: "''4A'' \<notin> set class_hierarchy"
    by (simp add: class_hierarchy_def)
  from predict_fare_unknown_class [OF unknown, of 200 180 sample_model] unknown
  show ?thesis by simp
qed

text \<open>
  C10: whenever the cap fires (duration above 0 and a speed above 130 before the
  cap), the row has speed_kmh = 75, is_express = 1 (position 8) and express_premium
  (position 19) equal to luxury_score (position 3).
\<close>

theorem clamped_is_express:
  assumes "0 < duration"
      and "raw_speed_kmh distance duration = ret raw"
      and "130 < raw"
      and "class_code \<in> set class_hierarchy"
  shows "\<exists>row luxury_score.
     luxury_mapping class_code = Some luxury_score \<and>
     predict_calls (predict_fare distance duration class_code model) = [[row]] \<and>
     row ! 4 = 75 \<and> row ! 8 = 1 \<and> row ! 19 = of_int luxury_score \<and> row ! 19 = row ! 3"
proof -
  from assms(4) obtain class_encoded luxury_score where
    tables: "class_mapping class_code = Some class_encoded"
            "luxury_mapping class_code = Some luxury_score"
    by (rule known_class)
  let ?row = "row_of distance duration class_encoded luxury_score"
  from assms(2) have "(if duration > 0 then distance / of_int \<lceil>duration / 60\<rceil> else 0) = raw"
    by (simp only: raw_speed_kmh_ret ret_eq_iff)
  with assms(1,3) have speed: "?row ! 4 = 75"
    by (simp add: row_of_speed)
  then have express: "?row ! 8 = 1"
    by (simp add: row_of_speed_products)
  then have premium: "?row ! 19 = of_int luxury_score" "?row ! 19 = ?row ! 3"
    by (simp_all add: row_of_speed_products(5) row_of_inputs)
  have calls: "predict_calls (predict_fare distance duration class_code model) = [[?row]]"
    by (rule predict_calls_known_class [OF tables])
  from tables(2) calls speed express premium show ?thesis
    by blast
qed

theorem clamped_is_express_witness:
  "(0::real) < 90 \<and> raw_speed_kmh 400 90 = ret 200 \<and> (130::real) < 200 \<and>
   ''2S'' \<in> set class_hierarchy \<and>
   (\<exists>row. predict_calls (predict_fare 400 90 ''2S'' sample_model) = [[row]] \<and>
      row ! 4 = 75 \<and> row ! 8 = 1 \<and> row ! 19 = 1)"
proof -
  have raw: "raw_speed_kmh 400 90 = ret 200"
    by (simp add: raw_speed_kmh_ret)
  have known: "''2S'' \<in> set class_hierarchy"
    by (simp add: class_hierarchy_def)
  from clamped_is_express [OF _ raw _ known, of sample_model] raw known
  show ?thesis
    by (auto simp add: luxury_mapping_def)
qed

end
